theory Spec2Isabelle
  imports Main
begin

section \<open>The HTTP-like request builder of \<open>lib/websocket/http.js\<close>\<close>

text \<open>
  The module exports one function that builds a chainable request object (\<open>http\<close>)
  around a wrapped socket, and a private helper \<open>translateResponse\<close>. The file runs
  under \<open>'use strict'\<close>.

  JavaScript values are modelled by value, as trees. The model covers the data a caller or
  a peer can put into a request or a response: \<open>undefined\<close>, \<open>null\<close>, booleans, numbers,
  strings, arrays and plain objects.
  \<^item> Numbers are the integers; fractions, \<open>NaN\<close> and the infinities have no value in
    the model. Truthiness and the comparison with 0 are those of the integer. The
    conversion to a string is modelled for the safe integers, of magnitude at most
    \<open>2^53 - 1\<close>, which a double holds exactly and prints in plain decimal notation; for
    any other number it is marked as outside the model.
  \<^item> Strings are sequences of bytes: a well-formed string in UTF-8. The character \<open>?\<close>
    and the unreserved characters of a URI are single bytes below 128 and occur in no
    multi-byte sequence.
  \<^item> An object is the list of its own enumerable data properties in enumeration order;
    an array is the list of its elements together with the list of its further own
    properties (an array is an object and can carry named properties). Objects inherit
    from the unmodified built-in prototypes. A well-formed property list has no key twice.
  \<^item> An in-place mutation of an object returns the updated object, which stands for the
    same reference. Two values are taken to share no object, except where the model says
    that they are one and the same object.
\<close>

datatype jsval =
    Undefined
  | Null
  | Bool bool
  | Num int
  | Str (str: string)
  | Arr "jsval list" "(string \<times> jsval) list"
  | Obj "(string \<times> jsval) list"

text \<open>
  What a JavaScript \<open>throw\<close> carries. \<open>TypeError msg\<close> is \<open>new TypeError(msg)\<close> thrown by
  the source itself; \<open>EngineTypeError\<close> is a \<open>TypeError\<close> raised by the language (its
  message depends on the engine); \<open>Raised v\<close> is a value thrown or rejected by the program
  or a collaborator. \<open>Unmodelled\<close> is not a JavaScript exception: it marks an operation
  whose effect lies outside the model (a write that replaces the prototype of an object, a
  write to an index or to the length of an array, the conversion to a string of a number
  that is not a safe integer), so that nothing is asserted about it.
\<close>

datatype exn = TypeError string | EngineTypeError | Raised jsval | Unmodelled

text \<open>How a statement sequence ends: normally, or by a \<open>throw\<close>.\<close>

datatype completion = Normal | Throw exn

subsection \<open>Language primitives\<close>

text \<open>\<open>ToBoolean\<close>: the test of \<open>if (v)\<close> and \<open>!v\<close>.\<close>

fun truthy :: "jsval \<Rightarrow> bool" where
  "truthy Undefined = False"
| "truthy Null = False"
| "truthy (Bool b) = b"
| "truthy (Num n) = (n \<noteq> 0)"
| "truthy (Str s) = (s \<noteq> [])"
| "truthy (Arr es ps) = True"
| "truthy (Obj ps) = True"

text \<open>Decimal notation of a natural number, most significant digit first.\<close>

fun string_of_nat :: "nat \<Rightarrow> string" where
  "string_of_nat n =
     (if n < 10 then [char_of (48 + n)]
      else string_of_nat (n div 10) @ [char_of (48 + n mod 10)])"

declare string_of_nat.simps [simp del]

text \<open>\<open>Array.prototype.join\<close> on strings that are already converted.\<close>

fun join :: "string list \<Rightarrow> string \<Rightarrow> string" where
  "join [] sep = []"
| "join [s] sep = s"
| "join (s # t # ss) sep = s @ sep @ join (t # ss) sep"

text \<open>
  \<open>ToString\<close>, as applied by \<open>encodeURIComponent\<close> and by \<open>join\<close> to each element.
  An object is converted by its \<open>toString\<close> method: the inherited one answers
  \<open>[object Object]\<close>; an own property of that name holds data, is not callable, and the
  conversion ends in a \<open>TypeError\<close> (the inherited \<open>valueOf\<close> returns the object itself).
  An array is converted by \<open>Array.prototype.toString\<close>, which calls \<open>join\<close> unless an own
  property hides it; \<open>join\<close> converts \<open>undefined\<close> and \<open>null\<close> elements to the empty
  string and stops at the first element whose conversion throws. A number is printed in
  decimal notation if it is a safe integer.
\<close>

fun ToString :: "jsval \<Rightarrow> exn + string"
  and element_strings :: "jsval list \<Rightarrow> exn + string list" where
  "ToString Undefined = Inr ''undefined''"
| "ToString Null = Inr ''null''"
| "ToString (Bool b) = Inr (if b then ''true'' else ''false'')"
| "ToString (Num n) =
     (if - 9007199254740991 \<le> n \<and> n \<le> 9007199254740991
      then Inr (if n < 0 then CHR ''-'' # string_of_nat (nat (- n)) else string_of_nat (nat n))
      else Inl Unmodelled)"
| "ToString (Str s) = Inr s"
| "ToString (Arr es ps) =
     (if ''toString'' \<in> fst ` set ps then Inl EngineTypeError
      else if ''join'' \<in> fst ` set ps then Inr ''[object Array]''
      else (case element_strings es of
              Inl e \<Rightarrow> Inl e
            | Inr ss \<Rightarrow> Inr (join ss '','')))"
| "ToString (Obj ps) =
     (if ''toString'' \<in> fst ` set ps then Inl EngineTypeError
      else Inr ''[object Object]'')"
| "element_strings [] = Inr []"
| "element_strings (x # xs) =
     (case (case x of Undefined \<Rightarrow> Inr [] | Null \<Rightarrow> Inr [] | _ \<Rightarrow> ToString x) of
        Inl e \<Rightarrow> Inl e
      | Inr s \<Rightarrow>
          (case element_strings xs of
             Inl e \<Rightarrow> Inl e
           | Inr ss \<Rightarrow> Inr (s # ss)))"

text \<open>
  \<open>query.join('&')\<close> on an array: the method is looked up on the array first, where an
  own property named \<open>join\<close> (data, hence not callable) makes the call a \<open>TypeError\<close>.
\<close>

fun array_join :: "jsval list \<Rightarrow> (string \<times> jsval) list \<Rightarrow> string \<Rightarrow> exn + string" where
  "array_join es ps sep =
     (if ''join'' \<in> fst ` set ps then Inl EngineTypeError
      else (case element_strings es of
              Inl e \<Rightarrow> Inl e
            | Inr ss \<Rightarrow> Inr (join ss sep)))"

text \<open>
  \<open>encodeURIComponent\<close>: the argument is converted to a string; every byte that is
  not an unreserved character (\<open>A-Z a-z 0-9 - _ . ! ~ * ' ( )\<close>) becomes \<open>%\<close> and its
  two upper-case hexadecimal digits.
\<close>

definition unreserved :: "char \<Rightarrow> bool" where
  "unreserved c =
     (let n = (of_char c :: nat)
      in (65 \<le> n \<and> n \<le> 90) \<or> (97 \<le> n \<and> n \<le> 122) \<or> (48 \<le> n \<and> n \<le> 57)
         \<or> c \<in> set ''-_.!~*'()'')"

definition hex_digit :: "nat \<Rightarrow> char" where
  "hex_digit d = ''0123456789ABCDEF'' ! (d mod 16)"

definition percent_encode :: "char \<Rightarrow> string" where
  "percent_encode c =
     (if unreserved c then [c]
      else [CHR ''%'', hex_digit ((of_char c :: nat) div 16), hex_digit (of_char c :: nat)])"

definition encoded :: "string \<Rightarrow> string" where
  "encoded s = concat (map percent_encode s)"

definition encodeURIComponent :: "jsval \<Rightarrow> exn + string" where
  "encodeURIComponent v =
     (case ToString v of
        Inl e \<Rightarrow> Inl e
      | Inr s \<Rightarrow> Inr (encoded s))"

subsection \<open>Own properties\<close>

text \<open>
  An array index is the canonical decimal notation of a number below \<open>2^32 - 1\<close>. Such
  keys are enumerated first, in ascending order; the other keys follow in the order in
  which they were created.
\<close>

fun int_of_digits :: "int \<Rightarrow> string \<Rightarrow> int" where
  "int_of_digits acc [] = acc"
| "int_of_digits acc (c # cs) = int_of_digits (10 * acc + (of_char c - 48)) cs"

definition array_index :: "string \<Rightarrow> int option" where
  "array_index k =
     (if k \<noteq> [] \<and> list_all (\<lambda>c. 48 \<le> (of_char c :: int) \<and> (of_char c :: int) \<le> 57) k
         \<and> (k = ''0'' \<or> hd k \<noteq> CHR ''0'') \<and> int_of_digits 0 k < 4294967295
      then Some (int_of_digits 0 k) else None)"

text \<open>Creating the property \<open>k\<close> in a property list that does not have it.\<close>

fun create_property :: "string \<Rightarrow> jsval \<Rightarrow> (string \<times> jsval) list \<Rightarrow> (string \<times> jsval) list" where
  "create_property k v [] = [(k, v)]"
| "create_property k v ((k', v') # ps) =
     (case (array_index k, array_index k') of
        (None, _) \<Rightarrow> (k', v') # create_property k v ps
      | (Some i, None) \<Rightarrow> (k, v) # (k', v') # ps
      | (Some i, Some j) \<Rightarrow>
          (if j < i then (k', v') # create_property k v ps else (k, v) # (k', v') # ps))"

text \<open>Writing an existing property keeps its place.\<close>

fun write_property :: "string \<Rightarrow> jsval \<Rightarrow> (string \<times> jsval) list \<Rightarrow> (string \<times> jsval) list" where
  "write_property k v [] = []"
| "write_property k v ((k', v') # ps) =
     (if k' = k then (k, v) # ps else (k', v') # write_property k v ps)"

definition set_own :: "string \<Rightarrow> jsval \<Rightarrow> (string \<times> jsval) list \<Rightarrow> (string \<times> jsval) list" where
  "set_own k v ps =
     (if k \<in> fst ` set ps then write_property k v ps else create_property k v ps)"

definition is_object :: "jsval \<Rightarrow> bool" where
  "is_object v = (case v of Arr es ps \<Rightarrow> True | Obj ps \<Rightarrow> True | _ \<Rightarrow> False)"

text \<open>
  The assignment \<open>target[k] = v\<close> in strict mode. The key \<open>__proto__\<close> is the accessor
  inherited from \<open>Object.prototype\<close>, and the assignment calls its setter. On
  \<open>undefined\<close> and \<open>null\<close> every assignment is a \<open>TypeError\<close>. On a primitive (boolean,
  number, string) the setter of \<open>__proto__\<close> returns without effect, whatever the value,
  and the assignment of any other key is a \<open>TypeError\<close> in strict mode. On an object the
  setter of \<open>__proto__\<close> does nothing when given anything but an object or \<open>null\<close>, and
  replaces the prototype when given an object or \<open>null\<close>, which the model does not follow;
  any other key writes the own property. On an array, index keys and \<open>length\<close> change
  the elements, which the model does not follow either.
\<close>

fun put_property :: "jsval \<Rightarrow> string \<Rightarrow> jsval \<Rightarrow> exn + jsval" where
  "put_property (Obj ps) k v =
     (if k = ''__proto__'' then (if is_object v \<or> v = Null then Inl Unmodelled else Inr (Obj ps))
      else Inr (Obj (set_own k v ps)))"
| "put_property (Arr es ps) k v =
     (if k = ''__proto__'' then (if is_object v \<or> v = Null then Inl Unmodelled else Inr (Arr es ps))
      else if k = ''length'' \<or> array_index k \<noteq> None then Inl Unmodelled
      else Inr (Arr es (set_own k v ps)))"
| "put_property Undefined k v = Inl EngineTypeError"
| "put_property Null k v = Inl EngineTypeError"
| "put_property target k v = (if k = ''__proto__'' then Inr target else Inl EngineTypeError)"

text \<open>
  The read \<open>target[k]\<close> for a key that no built-in prototype defines and that is neither
  an index nor \<open>length\<close> (the program reads \<open>_s\<close> and \<open>_b\<close> only): the own property, or
  \<open>undefined\<close>. On \<open>undefined\<close> and \<open>null\<close> the read is a \<open>TypeError\<close>.
\<close>

fun get_property :: "jsval \<Rightarrow> string \<Rightarrow> exn + jsval" where
  "get_property Undefined k = Inl EngineTypeError"
| "get_property Null k = Inl EngineTypeError"
| "get_property (Obj ps) k = Inr (case map_of ps k of Some v \<Rightarrow> v | None \<Rightarrow> Undefined)"
| "get_property (Arr es ps) k = Inr (case map_of ps k of Some v \<Rightarrow> v | None \<Rightarrow> Undefined)"
| "get_property target k = Inr Undefined"

text \<open>
  \<open>delete target[k]\<close> for such a key: own data properties are configurable, and deleting
  a property that does not exist succeeds.
\<close>

fun delete_property :: "jsval \<Rightarrow> string \<Rightarrow> exn + jsval" where
  "delete_property Undefined k = Inl EngineTypeError"
| "delete_property Null k = Inl EngineTypeError"
| "delete_property (Obj ps) k = Inr (Obj (filter (\<lambda>p. fst p \<noteq> k) ps))"
| "delete_property (Arr es ps) k = Inr (Arr es (filter (\<lambda>p. fst p \<noteq> k) ps))"
| "delete_property target k = Inr target"

subsection \<open>The utilities of \<open>lib/util.js\<close>\<close>

text \<open>
  Modelled from the spec: \<open>util.isString\<close>, \<open>util.isNumber\<close>, \<open>util.isArray\<close> and
  \<open>util.isObject\<close> of \<open>lib/util.js\<close>, which is not among the sources. The spec calls
  them boolean classifiers for string, number, array and object, free of side effects,
  and counts an array and \<open>null\<close> among the values that are not objects.
\<close>

definition isString :: "jsval \<Rightarrow> bool" where
  "isString v = (case v of Str s \<Rightarrow> True | _ \<Rightarrow> False)"

definition isNumber :: "jsval \<Rightarrow> bool" where
  "isNumber v = (case v of Num n \<Rightarrow> True | _ \<Rightarrow> False)"

definition isArray :: "jsval \<Rightarrow> bool" where
  "isArray v = (case v of Arr es ps \<Rightarrow> True | _ \<Rightarrow> False)"

definition isObject :: "jsval \<Rightarrow> bool" where
  "isObject v = (case v of Obj ps \<Rightarrow> True | _ \<Rightarrow> False)"

text \<open>
  Modelled from the spec: \<open>util.forEach(mapping, (key, value) => ...)\<close> of
  \<open>lib/util.js\<close>, a stable key-ordered iteration over the entries of a mapping. The
  callback acts on a state; an exception thrown by the callback ends the iteration. Both
  callers test \<open>isObject\<close> first; on any other value the model visits no entry.
\<close>

fun forEach_entries ::
  "(string \<times> jsval) list \<Rightarrow> (string \<Rightarrow> jsval \<Rightarrow> 's \<Rightarrow> completion \<times> 's) \<Rightarrow> 's \<Rightarrow> completion \<times> 's" where
  "forEach_entries [] cb s = (Normal, s)"
| "forEach_entries ((key, val) # ps) cb s =
     (case cb key val s of
        (Normal, s') \<Rightarrow> forEach_entries ps cb s'
      | (Throw e, s') \<Rightarrow> (Throw e, s'))"

definition forEach ::
  "jsval \<Rightarrow> (string \<Rightarrow> jsval \<Rightarrow> 's \<Rightarrow> completion \<times> 's) \<Rightarrow> 's \<Rightarrow> completion \<times> 's" where
  "forEach obj cb s = forEach_entries (case obj of Obj ps \<Rightarrow> ps | _ \<Rightarrow> []) cb s"

subsection \<open>The collaborators\<close>

text \<open>
  A promise is modelled by how it ends: fulfilled with a value, rejected with a reason,
  or never settled.
\<close>

datatype 'r settlement = Fulfilled jsval | Rejected 'r | Pending

text \<open>
  The \<open>then\<close> of a promise with both handlers: the handler of the arm that is taken is
  run on the value or the reason; its result fulfils the new promise, what it throws
  rejects it.
\<close>

fun promise_then ::
  "jsval settlement \<Rightarrow> (jsval \<Rightarrow> exn + jsval) \<Rightarrow> (jsval \<Rightarrow> exn + jsval) \<Rightarrow> exn settlement" where
  "promise_then (Fulfilled v) onFulfilled onRejected =
     (case onFulfilled v of Inl e \<Rightarrow> Rejected e | Inr v' \<Rightarrow> Fulfilled v')"
| "promise_then (Rejected r) onFulfilled onRejected =
     (case onRejected r of Inl e \<Rightarrow> Rejected e | Inr v' \<Rightarrow> Fulfilled v')"
| "promise_then Pending onFulfilled onRejected = Pending"

text \<open>The rapport options: \<open>options.Promise.reject\<close> is all that the module uses.\<close>

record options =
  Promise_reject :: "jsval \<Rightarrow> exn settlement"

text \<open>
  The wrapped socket, by its behaviour. \<open>ws_send envelope\<close> is \<open>None\<close> when
  \<open>send(envelope)\<close> returns and \<open>Some e\<close> when it throws \<open>e\<close>.
  \<open>ws_request_callback envelope timeout\<close> is what \<open>request(envelope, timeout, cb)\<close>
  does: the calls it makes of \<open>cb\<close>, in order, and the value it returns.
  \<open>ws_request_promise envelope timeout\<close> is how the promise returned by
  \<open>request(envelope, timeout)\<close> ends. \<open>ws_options\<close> are the options the wrapper was
  configured with.
\<close>

text \<open>
  A call \<open>cb(res, err)\<close> by the socket. \<open>Arguments res err\<close> passes two values that
  share no object (as when one of them is the placeholder \<open>undefined\<close> or \<open>null\<close>);
  \<open>SameObject obj\<close> passes one and the same object in both positions.
\<close>

datatype call = Arguments jsval jsval | SameObject jsval

record wrappedSocket =
  ws_send :: "jsval \<Rightarrow> jsval option"
  ws_request_callback :: "jsval \<Rightarrow> jsval \<Rightarrow> call list \<times> jsval"
  ws_request_promise :: "jsval \<Rightarrow> jsval \<Rightarrow> jsval settlement"
  ws_options :: options

subsection \<open>\<open>translateResponse\<close>\<close>

definition translateResponse :: "jsval \<Rightarrow> exn + jsval" where
  "translateResponse res =
     (if truthy res then
        (case get_property res ''_s'' of
           Inl e \<Rightarrow> Inl e
         | Inr s \<Rightarrow>
        (case put_property res ''status'' s of
           Inl e \<Rightarrow> Inl e
         | Inr res1 \<Rightarrow>
        (case delete_property res1 ''_s'' of
           Inl e \<Rightarrow> Inl e
         | Inr res2 \<Rightarrow>
        (case get_property res2 ''_b'' of
           Inl e \<Rightarrow> Inl e
         | Inr b \<Rightarrow>
        (case put_property res2 ''body'' b of
           Inl e \<Rightarrow> Inl e
         | Inr res3 \<Rightarrow> delete_property res3 ''_b'')))))
      else Inr res)"

subsection \<open>The request object\<close>

text \<open>
  The object \<open>http\<close> with its private fields \<open>_method\<close>, \<open>_url\<close>, \<open>_body\<close>, \<open>_timeout\<close>
  and \<open>_expectResponse\<close> (\<open>h_method\<close> and so on here), and the two variables its methods
  close over, \<open>wrappedSocket\<close> and \<open>options\<close>. A method takes the object and returns how
  it ended and the object as it is then; a method that ends normally returns \<open>http\<close>
  itself, for chaining.
\<close>

record http =
  h_wrappedSocket :: wrappedSocket
  h_options :: options
  h_method :: string
  h_url :: string
  h_body :: jsval
  h_timeout :: jsval
  h_expectResponse :: jsval

text \<open>\<open>module.exports = (wrappedSocket, options, method, url) => ...\<close>\<close>

definition http_exports :: "wrappedSocket \<Rightarrow> options \<Rightarrow> jsval \<Rightarrow> jsval \<Rightarrow> exn + http" where
  "http_exports wrappedSocket options method url =
     (if \<not> isString method then Inl (TypeError ''HTTP method must be a string'')
      else if \<not> isString url then Inl (TypeError ''HTTP URL must be a string'')
      else Inr \<lparr> h_wrappedSocket = wrappedSocket, h_options = options,
                 h_method = str method, h_url = str url, h_body = Obj [],
                 h_timeout = Num 0, h_expectResponse = Bool True \<rparr>)"

definition body :: "jsval \<Rightarrow> http \<Rightarrow> completion \<times> http" where
  "body b h =
     (if isObject b then
        forEach b
          (\<lambda>key val h'.
             case put_property (h_body h') key val of
               Inl e \<Rightarrow> (Throw e, h')
             | Inr b' \<Rightarrow> (Normal, h'\<lparr>h_body := b'\<rparr>))
          h
      else (Normal, h\<lparr>h_body := b\<rparr>))"

text \<open>
  The local variable \<open>queryString\<close> of \<open>query\<close>, as the chain of tests computes it for
  a truthy argument. \<open>isArray\<close> holds of arrays only, so the second branch of the
  \<open>case\<close> under it is never taken.
\<close>

definition queryString :: "jsval \<Rightarrow> exn + string" where
  "queryString q =
     (if isString q then Inr (str q)
      else if isArray q then
        (case q of Arr es ps \<Rightarrow> array_join es ps ''&'' | _ \<Rightarrow> Inl Unmodelled)
      else if isObject q then
        (case forEach q
                (\<lambda>key val queryArray.
                   case encodeURIComponent (Str key) of
                     Inl e \<Rightarrow> (Throw e, queryArray)
                   | Inr k \<Rightarrow>
                       (case encodeURIComponent val of
                          Inl e \<Rightarrow> (Throw e, queryArray)
                        | Inr v \<Rightarrow> (Normal, queryArray @ [k @ ''='' @ v])))
                [] of
           (Normal, queryArray) \<Rightarrow> Inr (join queryArray ''&'')
         | (Throw e, queryArray) \<Rightarrow> Inl e)
      else Inl (TypeError ''Query must be a url encoded string, object, or array''))"

definition query :: "jsval \<Rightarrow> http \<Rightarrow> completion \<times> http" where
  "query q h =
     (if truthy q then
        (case queryString q of
           Inl e \<Rightarrow> (Throw e, h)
         | Inr qs \<Rightarrow>
             (if CHR ''?'' \<in> set (h_url h)
              then (Normal, h\<lparr>h_url := h_url h @ ''&'' @ qs\<rparr>)
              else (Normal, h\<lparr>h_url := h_url h @ ''?'' @ qs\<rparr>)))
      else (Normal, h))"

text \<open>\<open>ms > 0\<close> is evaluated on a value that passed \<open>isNumber\<close>.\<close>

definition timeout :: "jsval \<Rightarrow> http \<Rightarrow> completion \<times> http" where
  "timeout ms h =
     (if \<not> isNumber ms then (Throw (TypeError ''Timeout must be a numeric value''), h)
      else if (case ms of Num n \<Rightarrow> n > 0 | _ \<Rightarrow> False) then (Normal, h\<lparr>h_timeout := ms\<rparr>)
      else (Normal, h))"

definition expectResponse :: "jsval \<Rightarrow> http \<Rightarrow> completion \<times> http" where
  "expectResponse responseExpected h = (Normal, h\<lparr>h_expectResponse := responseExpected\<rparr>)"

text \<open>
  What \<open>send\<close> returns, and what it makes happen: the calls into the wrapped socket and
  the calls of the caller's callback \<open>cb\<close>. The caller's callback is taken to return
  normally; \<open>cb\<close> says whether one was supplied. \<open>CallbackThrew e\<close> is a call by the
  socket of the callback that \<open>send\<close> handed to \<open>request\<close>, ended by an exception
  before the caller's callback was reached.
\<close>

datatype returned = ReturnUndefined | ReturnPromise "exn settlement" | ReturnOf jsval

datatype event =
    SocketSend jsval
  | SocketRequest jsval jsval bool
  | Callback jsval jsval
  | CallbackThrew exn

text \<open>
  The callback that \<open>send\<close> hands to \<open>request\<close>,
  \<open>(res, err) => { cb(translateResponse(res), translateResponse(err)); }\<close>, under one
  call by the socket. The arguments of \<open>cb\<close> are evaluated from left to right. When both
  positions hold the same object, the second translation works on what the first one
  left, and the caller's callback receives that object in both positions.
\<close>

fun request_callback :: "call \<Rightarrow> event" where
  "request_callback (Arguments res err) =
     (case translateResponse res of
        Inl e \<Rightarrow> CallbackThrew e
      | Inr res' \<Rightarrow>
          (case translateResponse err of
             Inl e \<Rightarrow> CallbackThrew e
           | Inr err' \<Rightarrow> Callback res' err'))"
| "request_callback (SameObject obj) =
     (case translateResponse obj of
        Inl e \<Rightarrow> CallbackThrew e
      | Inr obj' \<Rightarrow>
          (case translateResponse obj' of
             Inl e \<Rightarrow> CallbackThrew e
           | Inr obj'' \<Rightarrow> Callback obj'' obj''))"

definition send :: "bool \<Rightarrow> http \<Rightarrow> returned \<times> event list" where
  "send cb h =
     (let body = Obj [(''_m'', Str (h_method h)), (''_u'', Str (h_url h)), (''_b'', h_body h)]
      in
      if \<not> truthy (h_expectResponse h) then
        (case ws_send (h_wrappedSocket h) body of
           None \<Rightarrow> (ReturnUndefined, [SocketSend body])
         | Some err \<Rightarrow>
             (if \<not> cb then (ReturnPromise (Promise_reject (h_options h) err), [SocketSend body])
              else (ReturnUndefined, [SocketSend body, Callback Null err])))
      else if cb then
        (case ws_request_callback (h_wrappedSocket h) body (h_timeout h) of
           (calls, r) \<Rightarrow>
             (ReturnOf r,
              SocketRequest body (h_timeout h) True # map request_callback calls))
      else
        (ReturnPromise
           (promise_then (ws_request_promise (h_wrappedSocket h) body (h_timeout h))
              translateResponse
              (\<lambda>err. case translateResponse err of Inl e \<Rightarrow> Inl e | Inr err' \<Rightarrow> Inl (Raised err'))),
         [SocketRequest body (h_timeout h) False]))"

subsection \<open>Chained calls and the verb adapters\<close>

text \<open>
  The expression \<open>r.f(x)\<close>: when \<open>r\<close> or the call throws, the expression throws;
  otherwise its value is the request object that \<open>f\<close> returns.
\<close>

definition chained :: "exn + http \<Rightarrow> (http \<Rightarrow> completion \<times> http) \<Rightarrow> exn + http" where
  "chained r f =
     (case r of
        Inl e \<Rightarrow> Inl e
      | Inr h \<Rightarrow> (case f h of (Normal, h') \<Rightarrow> Inr h' | (Throw e, h') \<Rightarrow> Inl e))"

text \<open>
  Modelled from the spec: the \<open>http\<close> operation of the socket wrapper, which is not among
  the sources. It passes the method and the route to the request builder, bound to the
  wrapper and to the configured options.
\<close>

definition wrappedSocket_http :: "wrappedSocket \<Rightarrow> jsval \<Rightarrow> jsval \<Rightarrow> exn + http" where
  "wrappedSocket_http wrappedSocket method url =
     http_exports wrappedSocket (ws_options wrappedSocket) method url"

text \<open>\<open>lib/websocket/get.js\<close> and its sibling for \<open>put\<close>.\<close>

definition get :: "wrappedSocket \<Rightarrow> jsval \<Rightarrow> exn + http" where
  "get wrappedSocket route = wrappedSocket_http wrappedSocket (Str ''get'') route"

definition put :: "wrappedSocket \<Rightarrow> jsval \<Rightarrow> exn + http" where
  "put wrappedSocket route = wrappedSocket_http wrappedSocket (Str ''put'') route"

text \<open>The call \<open>r.send(cb)\<close> at the end of a chain.\<close>

definition chained_send :: "exn + http \<Rightarrow> bool \<Rightarrow> exn + returned \<times> event list" where
  "chained_send r cb = (case r of Inl e \<Rightarrow> Inl e | Inr h \<Rightarrow> Inr (send cb h))"

subsection \<open>Collaborators for the examples\<close>

text \<open>
  The built-in \<open>Promise\<close> as the configured constructor: \<open>Promise.reject(reason)\<close> is a
  promise rejected with that reason.
\<close>

definition native_Promise :: options where
  "native_Promise = \<lparr> Promise_reject = (\<lambda>reason. Rejected (Raised reason)) \<rparr>"

text \<open>
  A socket that is closed for \<open>send\<close>, which throws the string \<open>closed\<close>, and whose
  \<open>request\<close> answers every envelope once with \<open>{_s: 200, _b: [1, 2, 3]}\<close>.
\<close>

definition example_response :: jsval where
  "example_response = Obj [(''_s'', Num 200), (''_b'', Arr [Num 1, Num 2, Num 3] [])]"

definition example_socket :: wrappedSocket where
  "example_socket =
     \<lparr> ws_send = (\<lambda>envelope. Some (Str ''closed'')),
       ws_request_callback = (\<lambda>envelope ms. ([Arguments example_response Undefined], Undefined)),
       ws_request_promise = (\<lambda>envelope ms. Fulfilled example_response),
       ws_options = native_Promise \<rparr>"

text \<open>A socket that rejects every request with \<open>{_s: 404, _b: "no route"}\<close>.\<close>

definition failing_socket :: wrappedSocket where
  "failing_socket =
     \<lparr> ws_send = (\<lambda>envelope. None),
       ws_request_callback =
         (\<lambda>envelope ms.
            ([Arguments Undefined (Obj [(''_s'', Num 404), (''_b'', Str ''no route'')])], Undefined)),
       ws_request_promise =
         (\<lambda>envelope ms. Rejected (Obj [(''_s'', Num 404), (''_b'', Str ''no route'')])),
       ws_options = native_Promise \<rparr>"

text \<open>
  A socket whose peer answers with bare strings: every request is fulfilled with the
  string \<open>pong\<close>, or answered by the call \<open>cb("pong", undefined)\<close>.
\<close>

definition pong_socket :: wrappedSocket where
  "pong_socket =
     \<lparr> ws_send = (\<lambda>envelope. None),
       ws_request_callback = (\<lambda>envelope ms. ([Arguments (Str ''pong'') Undefined], Undefined)),
       ws_request_promise = (\<lambda>envelope ms. Fulfilled (Str ''pong'')),
       ws_options = native_Promise \<rparr>"

text \<open>A socket that passes the response object in both positions of its one call.\<close>

definition echoing_socket :: wrappedSocket where
  "echoing_socket =
     \<lparr> ws_send = (\<lambda>envelope. None),
       ws_request_callback = (\<lambda>envelope ms. ([SameObject example_response], Undefined)),
       ws_request_promise = (\<lambda>envelope ms. Fulfilled example_response),
       ws_options = native_Promise \<rparr>"

text \<open>The request object of \<open>get(example_socket, "/items")\<close>, before any chained call.\<close>

definition example_request :: http where
  "example_request =
     \<lparr> h_wrappedSocket = example_socket, h_options = native_Promise,
       h_method = ''get'', h_url = ''/items'', h_body = Obj [],
       h_timeout = Num 0, h_expectResponse = Bool True \<rparr>"

text \<open>The events that are calls into the wrapped socket.\<close>

fun socket_event :: "event \<Rightarrow> bool" where
  "socket_event (SocketSend envelope) = True"
| "socket_event (SocketRequest envelope ms cb) = True"
| "socket_event (Callback res err) = False"
| "socket_event (CallbackThrew e) = False"


text \<open>The value of the own property \<open>k\<close> in a property list, \<open>undefined\<close> without one.\<close>

definition own_value :: "(string \<times> jsval) list \<Rightarrow> string \<Rightarrow> jsval" where
  "own_value ps k = (case map_of ps k of Some v \<Rightarrow> v | None \<Rightarrow> Undefined)"

section \<open>Properties\<close>

subsection \<open>Property lists as maps\<close>

lemma map_of_write_property_at:
  "map_of (write_property k v ps) x =
     (if x = k \<and> k \<in> fst ` set ps then Some v else map_of ps x)"
  by (induction ps) force+

lemma map_of_write_property:
  "k \<in> fst ` set ps \<Longrightarrow> map_of (write_property k v ps) = (map_of ps)(k \<mapsto> v)"
  by (simp add: fun_eq_iff map_of_write_property_at)

lemma map_of_create_property:
  "k \<notin> fst ` set ps \<Longrightarrow> map_of (create_property k v ps) = (map_of ps)(k \<mapsto> v)"
  by (induction ps) (auto simp: fun_eq_iff split: option.splits)

lemma map_of_set_own: "map_of (set_own k v ps) = (map_of ps)(k \<mapsto> v)"
  by (simp add: set_own_def map_of_write_property map_of_create_property)

lemma map_of_remove_key: "map_of (filter (\<lambda>p. fst p \<noteq> k) ps) = (map_of ps)(k := None)"
  by (induction ps) (auto simp: fun_eq_iff)

lemma get_example_request: "get example_socket (Str ''/items'') = Inr example_request"
  by (simp add: get_def wrappedSocket_http_def http_exports_def isString_def
      example_request_def example_socket_def)

subsection \<open>Construction\<close>

text \<open>
  C9. Construction fails if and only if the method or the URL is not a string, with a
  \<open>TypeError\<close>. The method is tested first: a method that is not a string is reported
  whatever the URL is, and the URL only when the method is a string. The outcome is a
  function of the two arguments alone: the socket and the options are stored in the
  request object and not called, so the failure precedes any use of the transport.
\<close>

theorem http_exports_rejects_non_strings:
  "((\<exists>e. http_exports ws opts method url = Inl e) = (\<not> isString method \<or> \<not> isString url))
   \<and> (\<not> isString method \<longrightarrow>
        http_exports ws opts method url = Inl (TypeError ''HTTP method must be a string''))
   \<and> (isString method \<and> \<not> isString url \<longrightarrow>
        http_exports ws opts method url = Inl (TypeError ''HTTP URL must be a string''))
   \<and> (isString method \<and> isString url \<longrightarrow>
        http_exports ws opts method url =
          Inr \<lparr> h_wrappedSocket = ws, h_options = opts, h_method = str method, h_url = str url,
                h_body = Obj [], h_timeout = Num 0, h_expectResponse = Bool True \<rparr>)
   \<and> (isString method = (\<exists>s. method = Str s))"
  by (auto simp: http_exports_def isString_def split: jsval.splits)

theorem http_exports_rejects_non_strings_witness:
  "http_exports example_socket native_Promise (Num 7) Null =
     Inl (TypeError ''HTTP method must be a string'')
   \<and> http_exports example_socket native_Promise (Str ''get'') (Num 7) =
     Inl (TypeError ''HTTP URL must be a string'')
   \<and> http_exports example_socket native_Promise (Str ''get'') (Str ''/items'') =
     Inr \<lparr> h_wrappedSocket = example_socket, h_options = native_Promise,
           h_method = ''get'', h_url = ''/items'', h_body = Obj [],
           h_timeout = Num 0, h_expectResponse = Bool True \<rparr>"
  using http_exports_rejects_non_strings [of example_socket native_Promise "Num 7" Null]
    http_exports_rejects_non_strings [of example_socket native_Promise "Str ''get''" "Num 7"]
    http_exports_rejects_non_strings [of example_socket native_Promise "Str ''get''" "Str ''/items''"]
  by (simp add: isString_def)

subsection \<open>\<open>timeout\<close>\<close>

text \<open>
  C8. \<open>timeout(ms)\<close> throws a \<open>TypeError\<close> if and only if \<open>ms\<close> is not a number, and
  leaves the request object as it was. For a number it stores \<open>ms\<close> exactly when
  \<open>ms > 0\<close> and otherwise changes nothing, so that a stored timeout survives a later
  zero or negative argument: after \<open>timeout(-5)\<close>, \<open>timeout(100)\<close> and \<open>timeout(0)\<close> the
  timeout is 100.
\<close>

theorem timeout_positive_only:
  "((\<exists>e. fst (timeout ms h) = Throw e) = (\<not> isNumber ms))
   \<and> (\<not> isNumber ms \<longrightarrow>
        timeout ms h = (Throw (TypeError ''Timeout must be a numeric value''), h))
   \<and> (isNumber ms = (\<exists>n. ms = Num n))
   \<and> (0 < n \<longrightarrow> timeout (Num n) h = (Normal, h\<lparr>h_timeout := Num n\<rparr>))
   \<and> (n \<le> 0 \<longrightarrow> timeout (Num n) h = (Normal, h))
   \<and> chained (chained (chained (Inr h) (timeout (Num (- 5)))) (timeout (Num 100))) (timeout (Num 0))
       = Inr (h\<lparr>h_timeout := Num 100\<rparr>)"
  by (auto simp: timeout_def isNumber_def chained_def split: jsval.splits)

theorem timeout_positive_only_witness:
  "timeout (Str ''100'') example_request =
     (Throw (TypeError ''Timeout must be a numeric value''), example_request)
   \<and> timeout (Num 100) example_request = (Normal, example_request\<lparr>h_timeout := Num 100\<rparr>)
   \<and> timeout (Num 0) (example_request\<lparr>h_timeout := Num 100\<rparr>) =
       (Normal, example_request\<lparr>h_timeout := Num 100\<rparr>)
   \<and> chained (chained (chained (Inr example_request) (timeout (Num (- 5)))) (timeout (Num 100)))
        (timeout (Num 0)) = Inr (example_request\<lparr>h_timeout := Num 100\<rparr>)"
  using timeout_positive_only [of "Str ''100''" example_request 100]
    timeout_positive_only [of "Num 0" "example_request\<lparr>h_timeout := Num 100\<rparr>" 0]
  by (simp add: isNumber_def)

subsection \<open>\<open>translateResponse\<close>\<close>

lemma translateResponse_Obj:
  "translateResponse (Obj ps) =
     Inr (Obj (filter (\<lambda>p. fst p \<noteq> ''_b'')
            (set_own ''body'' (own_value ps ''_b'')
               (filter (\<lambda>p. fst p \<noteq> ''_s'') (set_own ''status'' (own_value ps ''_s'') ps)))))"
  by (simp add: translateResponse_def own_value_def map_of_remove_key map_of_set_own)

lemma translateResponse_Arr:
  "translateResponse (Arr es ps) =
     Inr (Arr es (filter (\<lambda>p. fst p \<noteq> ''_b'')
            (set_own ''body'' (own_value ps ''_b'')
               (filter (\<lambda>p. fst p \<noteq> ''_s'') (set_own ''status'' (own_value ps ''_s'') ps)))))"
  by (simp add: translateResponse_def own_value_def map_of_remove_key map_of_set_own array_index_def)

lemma translateResponse_primitive:
  "truthy res \<Longrightarrow> \<not> is_object res \<Longrightarrow> translateResponse res = Inl EngineTypeError"
  by (cases res) (simp_all add: translateResponse_def is_object_def)

text \<open>
  C2, as the claim states it, fails: a truthy value need not be an object. On a non-empty
  string (a number but 0, \<open>true\<close>) the first assignment \<open>res.status = res._s\<close> is an
  assignment to a property of a primitive, which strict mode turns into a \<open>TypeError\<close>;
  nothing is returned.
\<close>

theorem translateResponse_truthy_string:
  "truthy (Str ''timeout'') \<and> translateResponse (Str ''timeout'') = Inl EngineTypeError"
  by (simp add: translateResponse_def)

text \<open>
  C2, amended. A falsy value is returned unchanged. An object, plain or array, is updated
  in place and returned: afterwards its property \<open>status\<close> holds what \<open>_s\<close> held
  (\<open>undefined\<close> if there was none), \<open>body\<close> holds what \<open>_b\<close> held, \<open>_s\<close> and \<open>_b\<close> are
  gone, every other property is as before, and so are the elements of an array. On a
  truthy value that is not an object the call throws a \<open>TypeError\<close>. So
  \<open>{_s: 200, _b: {ok: true}}\<close> becomes \<open>{status: 200, body: {ok: true}}\<close>.
\<close>

theorem translateResponse_renames:
  "(\<not> truthy res \<longrightarrow> translateResponse res = Inr res)
   \<and> (\<exists>ps'. translateResponse (Obj ps) = Inr (Obj ps')
         \<and> map_of ps' = (map_of ps)(''status'' \<mapsto> own_value ps ''_s'', ''_s'' := None,
                                     ''body'' \<mapsto> own_value ps ''_b'', ''_b'' := None))
   \<and> (\<exists>ps'. translateResponse (Arr es ps) = Inr (Arr es ps')
         \<and> map_of ps' = (map_of ps)(''status'' \<mapsto> own_value ps ''_s'', ''_s'' := None,
                                     ''body'' \<mapsto> own_value ps ''_b'', ''_b'' := None))
   \<and> (truthy res \<and> \<not> is_object res \<longrightarrow> translateResponse res = Inl EngineTypeError)
   \<and> translateResponse (Obj [(''_s'', Num 200), (''_b'', Obj [(''ok'', Bool True)])]) =
       Inr (Obj [(''status'', Num 200), (''body'', Obj [(''ok'', Bool True)])])"
proof -
  have falsy: "\<not> truthy res \<longrightarrow> translateResponse res = Inr res"
    by (simp add: translateResponse_def)
  have obj: "\<exists>ps'. translateResponse (Obj ps) = Inr (Obj ps')
         \<and> map_of ps' = (map_of ps)(''status'' \<mapsto> own_value ps ''_s'', ''_s'' := None,
                                     ''body'' \<mapsto> own_value ps ''_b'', ''_b'' := None)"
    by (simp add: translateResponse_Obj map_of_remove_key map_of_set_own)
  have arr: "\<exists>ps'. translateResponse (Arr es ps) = Inr (Arr es ps')
         \<and> map_of ps' = (map_of ps)(''status'' \<mapsto> own_value ps ''_s'', ''_s'' := None,
                                     ''body'' \<mapsto> own_value ps ''_b'', ''_b'' := None)"
    by (simp add: translateResponse_Arr map_of_remove_key map_of_set_own)
  have prim: "truthy res \<and> \<not> is_object res \<longrightarrow> translateResponse res = Inl EngineTypeError"
    by (simp add: translateResponse_primitive)
  have ex: "translateResponse (Obj [(''_s'', Num 200), (''_b'', Obj [(''ok'', Bool True)])]) =
       Inr (Obj [(''status'', Num 200), (''body'', Obj [(''ok'', Bool True)])])"
    by (simp add: translateResponse_Obj own_value_def set_own_def array_index_def)
  from falsy obj arr prim ex show ?thesis by blast
qed

theorem translateResponse_renames_witness:
  "translateResponse Null = Inr Null \<and> translateResponse Undefined = Inr Undefined
   \<and> translateResponse (Bool True) = Inl EngineTypeError"
  using translateResponse_renames [of Null] translateResponse_renames [of Undefined]
    translateResponse_renames [of "Bool True"]
  by (simp add: is_object_def)

subsection \<open>\<open>send\<close> without a response\<close>

text \<open>
  C3. \<open>expectResponse(false)\<close> stores a falsy flag. With a falsy flag \<open>send\<close> hands the
  envelope to the socket's \<open>send\<close> and to nothing else. When that returns, \<open>send\<close>
  returns \<open>undefined\<close> and the callback is not called, whether supplied or not. When it
  throws \<open>E\<close>: with a callback, the callback is called once with \<open>(null, E)\<close> and \<open>send\<close>
  returns \<open>undefined\<close>; without one, \<open>send\<close> returns what \<open>options.Promise.reject(E)\<close>
  returns, which for the built-in \<open>Promise\<close> is a promise rejected with \<open>E\<close>. In each case
  \<open>send\<close> returns: \<open>E\<close> does not leave it as an exception.
\<close>

theorem send_without_response:
  fixes h :: http
  defines "envelope \<equiv> Obj [(''_m'', Str (h_method h)), (''_u'', Str (h_url h)), (''_b'', h_body h)]"
  shows
  "fst (expectResponse (Bool False) h) = Normal
   \<and> \<not> truthy (h_expectResponse (snd (expectResponse (Bool False) h)))
   \<and> (\<not> truthy (h_expectResponse h) \<longrightarrow>
        (ws_send (h_wrappedSocket h) envelope = None \<longrightarrow>
           send cb h = (ReturnUndefined, [SocketSend envelope]))
        \<and> (ws_send (h_wrappedSocket h) envelope = Some E \<longrightarrow>
             send True h = (ReturnUndefined, [SocketSend envelope, Callback Null E])
             \<and> send False h =
                 (ReturnPromise (Promise_reject (h_options h) E), [SocketSend envelope])
             \<and> Promise_reject native_Promise E = Rejected (Raised E)))"
  by (simp add: envelope_def send_def Let_def expectResponse_def native_Promise_def)

theorem send_without_response_witness:
  "chained_send (chained (get example_socket (Str ''/items'')) (expectResponse (Bool False))) False =
     Inr (ReturnPromise (Rejected (Raised (Str ''closed''))),
          [SocketSend (Obj [(''_m'', Str ''get''), (''_u'', Str ''/items''), (''_b'', Obj [])])])
   \<and> chained_send (chained (get example_socket (Str ''/items'')) (expectResponse (Bool False))) True =
     Inr (ReturnUndefined,
          [SocketSend (Obj [(''_m'', Str ''get''), (''_u'', Str ''/items''), (''_b'', Obj [])]),
           Callback Null (Str ''closed'')])
   \<and> chained_send (chained (get failing_socket (Str ''/items'')) (expectResponse (Bool False))) True =
     Inr (ReturnUndefined,
          [SocketSend (Obj [(''_m'', Str ''get''), (''_u'', Str ''/items''), (''_b'', Obj [])])])"
proof -
  have a: "chained (get example_socket (Str ''/items'')) (expectResponse (Bool False)) =
      Inr (example_request\<lparr>h_expectResponse := Bool False\<rparr>)"
    by (simp add: get_example_request chained_def expectResponse_def)
  have b: "chained (get failing_socket (Str ''/items'')) (expectResponse (Bool False)) =
      Inr (example_request\<lparr>h_wrappedSocket := failing_socket, h_expectResponse := Bool False\<rparr>)"
    by (simp add: get_def wrappedSocket_http_def http_exports_def isString_def chained_def
        expectResponse_def example_request_def failing_socket_def)
  have c: "\<not> truthy (h_expectResponse (example_request\<lparr>h_expectResponse := Bool False\<rparr>))"
    "ws_send (h_wrappedSocket (example_request\<lparr>h_expectResponse := Bool False\<rparr>)) envelope =
       Some (Str ''closed'')"
    "Promise_reject (h_options (example_request\<lparr>h_expectResponse := Bool False\<rparr>)) E =
       Rejected (Raised E)"
    "h_method (example_request\<lparr>h_expectResponse := Bool False\<rparr>) = ''get''"
    "h_url (example_request\<lparr>h_expectResponse := Bool False\<rparr>) = ''/items''"
    "h_body (example_request\<lparr>h_expectResponse := Bool False\<rparr>) = Obj []" for envelope E
    by (simp_all add: example_request_def example_socket_def native_Promise_def)
  have d: "\<not> truthy (h_expectResponse
         (example_request\<lparr>h_wrappedSocket := failing_socket, h_expectResponse := Bool False\<rparr>))"
    "ws_send (h_wrappedSocket
         (example_request\<lparr>h_wrappedSocket := failing_socket, h_expectResponse := Bool False\<rparr>))
       envelope = None"
    "h_method (example_request\<lparr>h_wrappedSocket := failing_socket, h_expectResponse := Bool False\<rparr>)
       = ''get''"
    "h_url (example_request\<lparr>h_wrappedSocket := failing_socket, h_expectResponse := Bool False\<rparr>)
       = ''/items''"
    "h_body (example_request\<lparr>h_wrappedSocket := failing_socket, h_expectResponse := Bool False\<rparr>)
       = Obj []" for envelope
    by (simp_all add: example_request_def failing_socket_def)
  show ?thesis
    using send_without_response
      [where h = "example_request\<lparr>h_expectResponse := Bool False\<rparr>" and E = "Str ''closed''"]
      send_without_response
      [where h = "example_request\<lparr>h_wrappedSocket := failing_socket, h_expectResponse := Bool False\<rparr>"
         and cb = True]
    unfolding a b chained_send_def c d by simp
qed

subsection \<open>\<open>send\<close> with a response\<close>

lemma translateResponse_throws_iff:
  "(translateResponse v = Inl e) = (truthy v \<and> \<not> is_object v \<and> e = EngineTypeError)"
proof (cases "truthy v")
  case False
  then show ?thesis by (simp add: translateResponse_def)
next
  case True
  show ?thesis
  proof (cases "is_object v")
    case False
    with True show ?thesis by (auto simp: translateResponse_primitive)
  next
    case True
    then show ?thesis
      by (cases v) (simp_all add: is_object_def translateResponse_Obj translateResponse_Arr)
  qed
qed

text \<open>
  C4, as the claim states it, fails where the translation does not return. A socket whose
  promise is fulfilled with the string \<open>pong\<close> makes \<open>send()\<close> return a promise that is
  rejected with a \<open>TypeError\<close>, not one that resolves with a translated response; the
  same socket calling back with \<open>("pong", undefined)\<close> never reaches the caller's
  callback.
\<close>

theorem send_string_response:
  "send False (example_request\<lparr>h_wrappedSocket := pong_socket\<rparr>) =
     (ReturnPromise (Rejected EngineTypeError),
      [SocketRequest (Obj [(''_m'', Str ''get''), (''_u'', Str ''/items''), (''_b'', Obj [])])
         (Num 0) False])
   \<and> send True (example_request\<lparr>h_wrappedSocket := pong_socket\<rparr>) =
     (ReturnOf Undefined,
      [SocketRequest (Obj [(''_m'', Str ''get''), (''_u'', Str ''/items''), (''_b'', Obj [])])
         (Num 0) True,
       CallbackThrew EngineTypeError])"
  by (simp add: send_def Let_def example_request_def pong_socket_def translateResponse_def)

text \<open>
  C4, amended. The flag is truthy. With a callback, \<open>send\<close> calls the socket's \<open>request\<close>
  with the envelope, the stored timeout and a callback of its own, and returns what
  \<open>request\<close> returns; every call that the socket makes of that callback, in order, has
  this effect. For two arguments that share no object: if both translations return, the
  caller's callback is called with the translated \<open>res\<close> and the translated \<open>err\<close>, in
  these positions; if the translation of \<open>res\<close> throws, or that of \<open>res\<close> returns and that
  of \<open>err\<close> throws, the exception goes back to the socket and the caller's callback is
  not called. For one object in both positions, it is translated twice and the caller's
  callback receives the result in both positions. Without a callback, \<open>send\<close> calls
  \<open>request\<close> with the envelope and the timeout and returns a promise. When the socket's
  promise is fulfilled with \<open>v\<close>, the promise is fulfilled with the translated \<open>v\<close> if the
  translation returns, and rejected with the \<open>TypeError\<close> if it throws. When the socket's
  promise is rejected with a reason, the promise is rejected: with the translated reason
  if the translation returns, with the \<open>TypeError\<close> if it throws. When the socket's
  promise never settles, neither does the promise. The translation throws exactly on the
  truthy values that are not objects, and what it throws is a \<open>TypeError\<close>.
\<close>

theorem send_with_response:
  fixes h :: http
  defines "envelope \<equiv> Obj [(''_m'', Str (h_method h)), (''_u'', Str (h_url h)), (''_b'', h_body h)]"
  assumes "truthy (h_expectResponse h)"
  shows
  "(ws_request_callback (h_wrappedSocket h) envelope (h_timeout h) = (calls, r) \<longrightarrow>
      send True h =
        (ReturnOf r, SocketRequest envelope (h_timeout h) True # map request_callback calls))
   \<and> (translateResponse res = Inr res' \<and> translateResponse err = Inr err' \<longrightarrow>
        request_callback (Arguments res err) = Callback res' err')
   \<and> (translateResponse res = Inl e \<longrightarrow> request_callback (Arguments res err) = CallbackThrew e)
   \<and> (translateResponse res = Inr res' \<and> translateResponse err = Inl e \<longrightarrow>
        request_callback (Arguments res err) = CallbackThrew e)
   \<and> (translateResponse obj = Inr obj' \<and> translateResponse obj' = Inr obj'' \<longrightarrow>
        request_callback (SameObject obj) = Callback obj'' obj'')
   \<and> (translateResponse obj = Inl e \<longrightarrow> request_callback (SameObject obj) = CallbackThrew e)
   \<and> (ws_request_promise (h_wrappedSocket h) envelope (h_timeout h) = Fulfilled v
        \<and> translateResponse v = Inr v' \<longrightarrow>
      send False h = (ReturnPromise (Fulfilled v'), [SocketRequest envelope (h_timeout h) False]))
   \<and> (ws_request_promise (h_wrappedSocket h) envelope (h_timeout h) = Fulfilled v
        \<and> translateResponse v = Inl e \<longrightarrow>
      send False h = (ReturnPromise (Rejected e), [SocketRequest envelope (h_timeout h) False]))
   \<and> (ws_request_promise (h_wrappedSocket h) envelope (h_timeout h) = Rejected reason
        \<and> translateResponse reason = Inr reason' \<longrightarrow>
      send False h =
        (ReturnPromise (Rejected (Raised reason')), [SocketRequest envelope (h_timeout h) False]))
   \<and> (ws_request_promise (h_wrappedSocket h) envelope (h_timeout h) = Rejected reason
        \<and> translateResponse reason = Inl e \<longrightarrow>
      send False h = (ReturnPromise (Rejected e), [SocketRequest envelope (h_timeout h) False]))
   \<and> (ws_request_promise (h_wrappedSocket h) envelope (h_timeout h) = Pending \<longrightarrow>
      send False h = (ReturnPromise Pending, [SocketRequest envelope (h_timeout h) False]))
   \<and> ((translateResponse v = Inl e) = (truthy v \<and> \<not> is_object v \<and> e = EngineTypeError))"
proof -
  have cb: "ws_request_callback (h_wrappedSocket h) envelope (h_timeout h) = (calls, r) \<longrightarrow>
      send True h =
        (ReturnOf r, SocketRequest envelope (h_timeout h) True # map request_callback calls)"
    using assms by (simp add: send_def Let_def)
  have both: "translateResponse res = Inr res' \<and> translateResponse err = Inr err' \<longrightarrow>
        request_callback (Arguments res err) = Callback res' err'"
    by simp
  have first: "translateResponse res = Inl e \<longrightarrow>
      request_callback (Arguments res err) = CallbackThrew e"
    by simp
  have second: "translateResponse res = Inr res' \<and> translateResponse err = Inl e \<longrightarrow>
        request_callback (Arguments res err) = CallbackThrew e"
    by simp
  have same: "translateResponse obj = Inr obj' \<and> translateResponse obj' = Inr obj'' \<longrightarrow>
        request_callback (SameObject obj) = Callback obj'' obj''"
    by simp
  have same_throws: "translateResponse obj = Inl e \<longrightarrow>
      request_callback (SameObject obj) = CallbackThrew e"
    by simp
  have ful: "ws_request_promise (h_wrappedSocket h) envelope (h_timeout h) = Fulfilled v
        \<and> translateResponse v = Inr v' \<longrightarrow>
      send False h = (ReturnPromise (Fulfilled v'), [SocketRequest envelope (h_timeout h) False])"
    using assms by (simp add: send_def Let_def)
  have ful_throws: "ws_request_promise (h_wrappedSocket h) envelope (h_timeout h) = Fulfilled v
        \<and> translateResponse v = Inl e \<longrightarrow>
      send False h = (ReturnPromise (Rejected e), [SocketRequest envelope (h_timeout h) False])"
    using assms by (simp add: send_def Let_def)
  have rej: "ws_request_promise (h_wrappedSocket h) envelope (h_timeout h) = Rejected reason
        \<and> translateResponse reason = Inr reason' \<longrightarrow>
      send False h =
        (ReturnPromise (Rejected (Raised reason')), [SocketRequest envelope (h_timeout h) False])"
    using assms by (simp add: send_def Let_def)
  have rej_throws: "ws_request_promise (h_wrappedSocket h) envelope (h_timeout h) = Rejected reason
        \<and> translateResponse reason = Inl e \<longrightarrow>
      send False h = (ReturnPromise (Rejected e), [SocketRequest envelope (h_timeout h) False])"
    using assms by (simp add: send_def Let_def)
  have pending: "ws_request_promise (h_wrappedSocket h) envelope (h_timeout h) = Pending \<longrightarrow>
      send False h = (ReturnPromise Pending, [SocketRequest envelope (h_timeout h) False])"
    using assms by (simp add: send_def Let_def)
  have throws: "(translateResponse v = Inl e) = (truthy v \<and> \<not> is_object v \<and> e = EngineTypeError)"
    by (rule translateResponse_throws_iff)
  from cb both first second same same_throws ful ful_throws rej rej_throws pending throws
  show ?thesis by blast
qed

theorem send_with_response_witness:
  "send True example_request =
     (ReturnOf Undefined,
      [SocketRequest (Obj [(''_m'', Str ''get''), (''_u'', Str ''/items''), (''_b'', Obj [])])
         (Num 0) True,
       Callback (Obj [(''status'', Num 200), (''body'', Arr [Num 1, Num 2, Num 3] [])]) Undefined])
   \<and> send True (example_request\<lparr>h_wrappedSocket := echoing_socket\<rparr>) =
     (ReturnOf Undefined,
      [SocketRequest (Obj [(''_m'', Str ''get''), (''_u'', Str ''/items''), (''_b'', Obj [])])
         (Num 0) True,
       Callback (Obj [(''status'', Undefined), (''body'', Undefined)])
         (Obj [(''status'', Undefined), (''body'', Undefined)])])
   \<and> send False example_request =
     (ReturnPromise (Fulfilled (Obj [(''status'', Num 200), (''body'', Arr [Num 1, Num 2, Num 3] [])])),
      [SocketRequest (Obj [(''_m'', Str ''get''), (''_u'', Str ''/items''), (''_b'', Obj [])])
         (Num 0) False])
   \<and> send False (example_request\<lparr>h_wrappedSocket := failing_socket\<rparr>) =
     (ReturnPromise (Rejected (Raised (Obj [(''status'', Num 404), (''body'', Str ''no route'')]))),
      [SocketRequest (Obj [(''_m'', Str ''get''), (''_u'', Str ''/items''), (''_b'', Obj [])])
         (Num 0) False])
   \<and> send False (example_request\<lparr>h_wrappedSocket := pong_socket\<rparr>) =
     (ReturnPromise (Rejected EngineTypeError),
      [SocketRequest (Obj [(''_m'', Str ''get''), (''_u'', Str ''/items''), (''_b'', Obj [])])
         (Num 0) False])"
proof -
  let ?translated = "Obj [(''status'', Num 200), (''body'', Arr [Num 1, Num 2, Num 3] [])]"
  let ?twice = "Obj [(''status'', Undefined), (''body'', Undefined)]"
  let ?error = "Obj [(''_s'', Num 404), (''_b'', Str ''no route'')]"
  have t1: "translateResponse example_response = Inr ?translated"
    by (simp add: example_response_def translateResponse_Obj own_value_def set_own_def array_index_def)
  have t2: "translateResponse ?error = Inr (Obj [(''status'', Num 404), (''body'', Str ''no route'')])"
    by (simp add: translateResponse_Obj own_value_def set_own_def array_index_def)
  have t3: "translateResponse Undefined = Inr Undefined"
    by (simp add: translateResponse_def)
  have t4: "translateResponse ?translated = Inr ?twice"
    by (simp add: translateResponse_Obj own_value_def set_own_def array_index_def)
  have t5: "translateResponse (Str ''pong'') = Inl EngineTypeError"
    by (simp add: translateResponse_def)
  have e1: "truthy (h_expectResponse example_request)"
    "ws_request_promise (h_wrappedSocket example_request) envelope ms = Fulfilled example_response"
    "ws_request_callback (h_wrappedSocket example_request) envelope ms =
       ([Arguments example_response Undefined], Undefined)"
    "h_method example_request = ''get''" "h_url example_request = ''/items''"
    "h_body example_request = Obj []" "h_timeout example_request = Num 0" for envelope ms
    by (simp_all add: example_request_def example_socket_def)
  have e2: "truthy (h_expectResponse (example_request\<lparr>h_wrappedSocket := failing_socket\<rparr>))"
    "ws_request_promise (h_wrappedSocket (example_request\<lparr>h_wrappedSocket := failing_socket\<rparr>))
       envelope ms = Rejected ?error"
    "h_method (example_request\<lparr>h_wrappedSocket := failing_socket\<rparr>) = ''get''"
    "h_url (example_request\<lparr>h_wrappedSocket := failing_socket\<rparr>) = ''/items''"
    "h_body (example_request\<lparr>h_wrappedSocket := failing_socket\<rparr>) = Obj []"
    "h_timeout (example_request\<lparr>h_wrappedSocket := failing_socket\<rparr>) = Num 0" for envelope ms
    by (simp_all add: example_request_def failing_socket_def)
  have e3: "truthy (h_expectResponse (example_request\<lparr>h_wrappedSocket := echoing_socket\<rparr>))"
    "ws_request_callback (h_wrappedSocket (example_request\<lparr>h_wrappedSocket := echoing_socket\<rparr>))
       envelope ms = ([SameObject example_response], Undefined)"
    "h_method (example_request\<lparr>h_wrappedSocket := echoing_socket\<rparr>) = ''get''"
    "h_url (example_request\<lparr>h_wrappedSocket := echoing_socket\<rparr>) = ''/items''"
    "h_body (example_request\<lparr>h_wrappedSocket := echoing_socket\<rparr>) = Obj []"
    "h_timeout (example_request\<lparr>h_wrappedSocket := echoing_socket\<rparr>) = Num 0" for envelope ms
    by (simp_all add: example_request_def echoing_socket_def)
  have e4: "truthy (h_expectResponse (example_request\<lparr>h_wrappedSocket := pong_socket\<rparr>))"
    "ws_request_promise (h_wrappedSocket (example_request\<lparr>h_wrappedSocket := pong_socket\<rparr>))
       envelope ms = Fulfilled (Str ''pong'')"
    "h_method (example_request\<lparr>h_wrappedSocket := pong_socket\<rparr>) = ''get''"
    "h_url (example_request\<lparr>h_wrappedSocket := pong_socket\<rparr>) = ''/items''"
    "h_body (example_request\<lparr>h_wrappedSocket := pong_socket\<rparr>) = Obj []"
    "h_timeout (example_request\<lparr>h_wrappedSocket := pong_socket\<rparr>) = Num 0" for envelope ms
    by (simp_all add: example_request_def pong_socket_def)
  have w1: "send True example_request =
     (ReturnOf Undefined,
      [SocketRequest (Obj [(''_m'', Str ''get''), (''_u'', Str ''/items''), (''_b'', Obj [])])
         (Num 0) True, Callback ?translated Undefined])
    \<and> send False example_request =
     (ReturnPromise (Fulfilled ?translated),
      [SocketRequest (Obj [(''_m'', Str ''get''), (''_u'', Str ''/items''), (''_b'', Obj [])])
         (Num 0) False])"
    using send_with_response [where h = example_request and v = example_response
        and v' = ?translated and calls = "[Arguments example_response Undefined]" and r = Undefined
        and res = example_response and res' = ?translated and err = Undefined and err' = Undefined,
        OF e1(1)]
    unfolding e1 by (simp add: t1 t3)
  have w2: "send True (example_request\<lparr>h_wrappedSocket := echoing_socket\<rparr>) =
     (ReturnOf Undefined,
      [SocketRequest (Obj [(''_m'', Str ''get''), (''_u'', Str ''/items''), (''_b'', Obj [])])
         (Num 0) True, Callback ?twice ?twice])"
    using send_with_response [where h = "example_request\<lparr>h_wrappedSocket := echoing_socket\<rparr>"
        and calls = "[SameObject example_response]" and r = Undefined
        and obj = example_response and obj' = ?translated and obj'' = ?twice, OF e3(1)]
    unfolding e3 by (simp add: t1 t4)
  have w3: "send False (example_request\<lparr>h_wrappedSocket := failing_socket\<rparr>) =
     (ReturnPromise (Rejected (Raised (Obj [(''status'', Num 404), (''body'', Str ''no route'')]))),
      [SocketRequest (Obj [(''_m'', Str ''get''), (''_u'', Str ''/items''), (''_b'', Obj [])])
         (Num 0) False])"
    using send_with_response [where h = "example_request\<lparr>h_wrappedSocket := failing_socket\<rparr>"
        and reason = ?error
        and reason' = "Obj [(''status'', Num 404), (''body'', Str ''no route'')]", OF e2(1)]
    unfolding e2 by (simp add: t2)
  have w4: "send False (example_request\<lparr>h_wrappedSocket := pong_socket\<rparr>) =
     (ReturnPromise (Rejected EngineTypeError),
      [SocketRequest (Obj [(''_m'', Str ''get''), (''_u'', Str ''/items''), (''_b'', Obj [])])
         (Num 0) False])"
    using send_with_response [where h = "example_request\<lparr>h_wrappedSocket := pong_socket\<rparr>"
        and v = "Str ''pong''" and e = EngineTypeError, OF e4(1)]
    unfolding e4 by (simp add: t5)
  from w1 w2 w3 w4 show ?thesis by simp
qed

subsection \<open>The envelope\<close>

lemma request_callback_no_socket_event: "\<not> socket_event (request_callback c)"
  by (cases c) (simp_all split: sum.splits)

lemma wrapped_callbacks_no_socket_event:
  "filter socket_event (map request_callback calls) = []"
  by (induction calls) (simp_all add: request_callback_no_socket_event)

text \<open>
  C1, as the claim states it, fails on the names of the keys: the envelope that
  \<open>get(socket, "/items").query({page: 2}).timeout(500).send()\<close> passes to \<open>request\<close>
  has the keys \<open>_m\<close>, \<open>_u\<close> and \<open>_b\<close>, and is not
  \<open>{method: "get", url: "/items?page=2", body: {}}\<close>.
\<close>

theorem send_envelope_keys:
  "map_sum id snd
        (chained_send
           (chained (chained (get example_socket (Str ''/items'')) (query (Obj [(''page'', Num 2)])))
              (timeout (Num 500))) False) =
       Inr [SocketRequest
              (Obj [(''_m'', Str ''get''), (''_u'', Str ''/items?page=2''), (''_b'', Obj [])])
              (Num 500) False]
   \<and> Obj [(''_m'', Str ''get''), (''_u'', Str ''/items?page=2''), (''_b'', Obj [])] \<noteq>
       Obj [(''method'', Str ''get''), (''url'', Str ''/items?page=2''), (''body'', Obj [])]"
proof -
  have qs: "queryString (Obj [(''page'', Num 2)]) = Inr ''page=2''"
    by code_simp
  have chain: "chained (chained (get example_socket (Str ''/items'')) (query (Obj [(''page'', Num 2)])))
              (timeout (Num 500)) =
      Inr (example_request\<lparr>h_url := ''/items?page=2'', h_timeout := Num 500\<rparr>)"
    by (simp add: get_example_request chained_def query_def qs timeout_def isNumber_def
        example_request_def)
  show ?thesis
    unfolding chain by (simp add: chained_send_def send_def Let_def example_request_def)
qed

text \<open>
  C1, amended. Whatever the state of the request object and whether or not a callback is
  supplied, \<open>send\<close> makes exactly one call into the socket: \<open>request\<close> when the flag is
  truthy, with the envelope, the stored timeout and a callback or none, and \<open>send\<close>
  otherwise, with the envelope alone. The envelope is the object with exactly the keys
  \<open>_m\<close>, \<open>_u\<close> and \<open>_b\<close>, holding the method, the URL with every appended query
  string, and the accumulated body. For \<open>get(socket, "/items").query({page: 2}).timeout(500).send()\<close>
  on any socket the one call is \<open>request({_m: "get", _u: "/items?page=2", _b: {}}, 500)\<close>.
\<close>

theorem send_request_envelope:
  "filter socket_event (snd (send cb h)) =
     [if truthy (h_expectResponse h)
      then SocketRequest (Obj [(''_m'', Str (h_method h)), (''_u'', Str (h_url h)), (''_b'', h_body h)])
             (h_timeout h) cb
      else SocketSend (Obj [(''_m'', Str (h_method h)), (''_u'', Str (h_url h)), (''_b'', h_body h)])]
   \<and> map_sum id snd
        (chained_send
           (chained (chained (get ws (Str ''/items'')) (query (Obj [(''page'', Num 2)])))
              (timeout (Num 500))) False) =
       Inr [SocketRequest
              (Obj [(''_m'', Str ''get''), (''_u'', Str ''/items?page=2''), (''_b'', Obj [])])
              (Num 500) False]"
proof -
  have env: "filter socket_event (snd (send cb h)) =
     [if truthy (h_expectResponse h)
      then SocketRequest (Obj [(''_m'', Str (h_method h)), (''_u'', Str (h_url h)), (''_b'', h_body h)])
             (h_timeout h) cb
      else SocketSend (Obj [(''_m'', Str (h_method h)), (''_u'', Str (h_url h)), (''_b'', h_body h)])]"
    by (cases "ws_request_callback (h_wrappedSocket h)
          (Obj [(''_m'', Str (h_method h)), (''_u'', Str (h_url h)), (''_b'', h_body h)]) (h_timeout h)")
       (simp add: send_def Let_def wrapped_callbacks_no_socket_event split: option.splits)
  have qs: "queryString (Obj [(''page'', Num 2)]) = Inr ''page=2''"
    by code_simp
  have chain: "chained (chained (get ws (Str ''/items'')) (query (Obj [(''page'', Num 2)])))
              (timeout (Num 500)) =
      Inr \<lparr> h_wrappedSocket = ws, h_options = ws_options ws, h_method = ''get'',
            h_url = ''/items?page=2'', h_body = Obj [], h_timeout = Num 500,
            h_expectResponse = Bool True \<rparr>"
    by (simp add: get_def wrappedSocket_http_def http_exports_def isString_def chained_def
        query_def qs timeout_def isNumber_def)
  show ?thesis
    unfolding chain using env by (simp add: chained_send_def send_def Let_def)
qed

theorem send_request_envelope_witness:
  "filter socket_event (snd (send True (example_request\<lparr>h_body := Str ''ping''\<rparr>))) =
     [SocketRequest (Obj [(''_m'', Str ''get''), (''_u'', Str ''/items''), (''_b'', Str ''ping'')])
        (Num 0) True]
   \<and> filter socket_event (snd (send True (example_request\<lparr>h_expectResponse := Num 0\<rparr>))) =
     [SocketSend (Obj [(''_m'', Str ''get''), (''_u'', Str ''/items''), (''_b'', Obj [])])]"
  using send_request_envelope [of True "example_request\<lparr>h_body := Str ''ping''\<rparr>"]
    send_request_envelope [of True "example_request\<lparr>h_expectResponse := Num 0\<rparr>"]
  by (simp add: example_request_def)

subsection \<open>\<open>query\<close>\<close>














text \<open>
  C7, as the claim states it, fails for an input that is accepted and appends nothing:
  the empty string is falsy, so \<open>query("")\<close> leaves the URL alone, and \<open>query("")\<close>
  followed by \<open>query("b=2")\<close> on \<open>/items\<close> gives \<open>/items?b=2\<close>, not \<open>/items?&b=2\<close>.
\<close>

theorem query_empty_string:
  "chained (chained (Inr example_request) (query (Str []))) (query (Str ''b=2'')) =
     Inr (example_request\<lparr>h_url := ''/items?b=2''\<rparr>)
   \<and> queryString (Str []) = Inr []
   \<and> ''/items?b=2'' \<noteq> ''/items'' @ ''?'' @ [] @ ''&'' @ ''b=2''"
  by (simp add: chained_def query_def queryString_def isString_def example_request_def)

text \<open>
  C7, amended. A truthy input whose query string is \<open>qs\<close> extends the URL by \<open>&\<close> and
  \<open>qs\<close> if the URL contains \<open>?\<close>, and by \<open>?\<close> and \<open>qs\<close> otherwise. So two truthy inputs
  with the query strings \<open>s1\<close> and \<open>s2\<close> turn a URL without \<open>?\<close> into
  \<open>url ? s1 & s2\<close>, and a URL \<open>u ? s0\<close> into \<open>u ? s0 & s1 & s2\<close>. A falsy input appends
  nothing, not even a separator.
\<close>

theorem query_separator:
  "(truthy q \<and> queryString q = Inr qs \<longrightarrow>
      query q h =
        (Normal,
         h\<lparr>h_url := (if CHR ''?'' \<in> set (h_url h) then h_url h @ ''&'' @ qs
                      else h_url h @ ''?'' @ qs)\<rparr>))
   \<and> (truthy q1 \<and> queryString q1 = Inr s1 \<and> truthy q2 \<and> queryString q2 = Inr s2 \<longrightarrow>
        (CHR ''?'' \<notin> set (h_url h) \<longrightarrow>
           chained (chained (Inr h) (query q1)) (query q2) =
             Inr (h\<lparr>h_url := h_url h @ ''?'' @ s1 @ ''&'' @ s2\<rparr>))
        \<and> (h_url h = u @ ''?'' @ s0 \<longrightarrow>
           chained (chained (Inr h) (query q1)) (query q2) =
             Inr (h\<lparr>h_url := u @ ''?'' @ s0 @ ''&'' @ s1 @ ''&'' @ s2\<rparr>)))
   \<and> (\<not> truthy q \<longrightarrow> query q h = (Normal, h))"
  by (auto simp: query_def chained_def)

theorem query_separator_witness:
  "chained (chained (Inr example_request) (query (Str ''a=1''))) (query (Arr [Str ''b=2'', Str ''c=3''] [])) =
     Inr (example_request\<lparr>h_url := ''/items?a=1&b=2&c=3''\<rparr>)
   \<and> chained (chained (Inr (example_request\<lparr>h_url := ''/items?z=0''\<rparr>)) (query (Str ''a=1'')))
        (query (Arr [Str ''b=2'', Str ''c=3''] [])) =
     Inr (example_request\<lparr>h_url := ''/items?z=0&a=1&b=2&c=3''\<rparr>)"
proof -
  have q1: "truthy (Str ''a=1'')" "queryString (Str ''a=1'') = Inr ''a=1''"
    by (simp_all add: queryString_def isString_def)
  have q2: "truthy (Arr [Str ''b=2'', Str ''c=3''] [])"
    "queryString (Arr [Str ''b=2'', Str ''c=3''] []) = Inr ''b=2&c=3''"
    by (simp_all add: queryString_def isString_def isArray_def)
  have u: "CHR ''?'' \<notin> set (h_url example_request)"
    "h_url (example_request\<lparr>h_url := ''/items?z=0''\<rparr>) = ''/items'' @ ''?'' @ ''z=0''"
    by (simp_all add: example_request_def)
  show ?thesis
    using query_separator [where h = example_request and ?q1.0 = "Str ''a=1''" and ?s1.0 = "''a=1''"
        and ?q2.0 = "Arr [Str ''b=2'', Str ''c=3''] []" and ?s2.0 = "''b=2&c=3''"]
      query_separator [where h = "example_request\<lparr>h_url := ''/items?z=0''\<rparr>"
        and ?q1.0 = "Str ''a=1''" and ?s1.0 = "''a=1''"
        and ?q2.0 = "Arr [Str ''b=2'', Str ''c=3''] []" and ?s2.0 = "''b=2&c=3''"
        and u = "''/items''" and ?s0.0 = "''z=0''"]
      q1 q2 u
    by (simp add: example_request_def)
qed

subsection \<open>\<open>body\<close>\<close>

lemma map_of_rev_distinct: "distinct (map fst ps) \<Longrightarrow> map_of (rev ps) = map_of ps"
proof (induction ps)
  case Nil
  then show ?case by simp
next
  case (Cons p ps)
  obtain k v where p: "p = (k, v)" by (cases p)
  from Cons.prems p have "map_of ps k = None"
    by (simp add: map_of_eq_None_iff)
  with Cons p show ?case
    by (auto simp: fun_eq_iff map_add_def split: option.splits)
qed

lemma body_entries:
  "h_body h = Obj bs \<Longrightarrow> ''__proto__'' \<notin> fst ` set ps \<Longrightarrow>
   \<exists>bs'. forEach_entries ps
            (\<lambda>key val h'.
               case put_property (h_body h') key val of
                 Inl e \<Rightarrow> (Throw e, h')
               | Inr b' \<Rightarrow> (Normal, h'\<lparr>h_body := b'\<rparr>))
            h = (Normal, h\<lparr>h_body := Obj bs'\<rparr>)
        \<and> map_of bs' = map_of bs ++ map_of (rev ps)"
proof (induction ps arbitrary: h bs)
  case Nil
  then show ?case by (intro exI [of _ bs]) simp
next
  case (Cons p ps)
  obtain k v where p: "p = (k, v)" by (cases p)
  from Cons.prems p have k: "k \<noteq> ''__proto__''" and rest: "''__proto__'' \<notin> fst ` set ps"
    by auto
  let ?h1 = "h\<lparr>h_body := Obj (set_own k v bs)\<rparr>"
  have "h_body ?h1 = Obj (set_own k v bs)" by simp
  from Cons.IH [OF this rest] obtain bs' where
    run: "forEach_entries ps
            (\<lambda>key val h'.
               case put_property (h_body h') key val of
                 Inl e \<Rightarrow> (Throw e, h')
               | Inr b' \<Rightarrow> (Normal, h'\<lparr>h_body := b'\<rparr>))
            ?h1 = (Normal, ?h1\<lparr>h_body := Obj bs'\<rparr>)"
    and m: "map_of bs' = map_of (set_own k v bs) ++ map_of (rev ps)"
    by blast
  have "map_of bs' = map_of bs ++ map_of (rev (p # ps))"
    by (simp add: m p map_of_set_own fun_eq_iff map_add_def split: option.splits)
  moreover have "forEach_entries (p # ps)
            (\<lambda>key val h'.
               case put_property (h_body h') key val of
                 Inl e \<Rightarrow> (Throw e, h')
               | Inr b' \<Rightarrow> (Normal, h'\<lparr>h_body := b'\<rparr>))
            h = (Normal, h\<lparr>h_body := Obj bs'\<rparr>)"
    using run k Cons.prems(1) by (simp add: p)
  ultimately show ?case by blast
qed

lemma body_merges:
  "h_body h = Obj bs \<Longrightarrow> distinct (map fst ps) \<Longrightarrow> ''__proto__'' \<notin> fst ` set ps \<Longrightarrow>
   \<exists>bs'. body (Obj ps) h = (Normal, h\<lparr>h_body := Obj bs'\<rparr>) \<and> map_of bs' = map_of bs ++ map_of ps"
  using body_entries [of h bs ps]
  by (simp add: body_def isObject_def forEach_def map_of_rev_distinct)

lemma body_replaces: "\<not> isObject b \<Longrightarrow> body b h = (Normal, h\<lparr>h_body := b\<rparr>)"
  by (simp add: body_def)

lemma body_on_nothing:
  "h_body h = Undefined \<or> h_body h = Null \<Longrightarrow>
   body (Obj ps) h = (if ps = [] then (Normal, h) else (Throw EngineTypeError, h))"
proof (cases ps)
  case Nil
  then show ?thesis by (simp add: body_def isObject_def forEach_def)
next
  case (Cons p ps')
  assume "h_body h = Undefined \<or> h_body h = Null"
  then have "put_property (h_body h) k v = Inl EngineTypeError" for k v
    by auto
  then show ?thesis
    using Cons by (cases p) (simp add: body_def isObject_def forEach_def)
qed

lemma put_property_primitive:
  "\<not> is_object b \<Longrightarrow> b \<noteq> Undefined \<Longrightarrow> b \<noteq> Null \<Longrightarrow>
   put_property b k v = (if k = ''__proto__'' then Inr b else Inl EngineTypeError)"
  by (cases b) (simp_all add: is_object_def)

lemma body_entries_on_primitive:
  "\<not> is_object (h_body h) \<Longrightarrow> h_body h \<noteq> Undefined \<Longrightarrow> h_body h \<noteq> Null \<Longrightarrow>
   forEach_entries ps
     (\<lambda>key val h'.
        case put_property (h_body h') key val of
          Inl e \<Rightarrow> (Throw e, h')
        | Inr b' \<Rightarrow> (Normal, h'\<lparr>h_body := b'\<rparr>))
     h =
   (if list_all (\<lambda>p. fst p = ''__proto__'') ps then (Normal, h) else (Throw EngineTypeError, h))"
proof (induction ps)
  case Nil
  then show ?case by simp
next
  case (Cons p ps)
  then show ?case
    by (cases p) (simp add: put_property_primitive)
qed

lemma body_on_primitive:
  "\<not> is_object (h_body h) \<Longrightarrow> h_body h \<noteq> Undefined \<Longrightarrow> h_body h \<noteq> Null \<Longrightarrow>
   body (Obj ps) h =
     (if list_all (\<lambda>p. fst p = ''__proto__'') ps then (Normal, h) else (Throw EngineTypeError, h))"
  by (simp add: body_def isObject_def forEach_def body_entries_on_primitive)

text \<open>
  C5. The code fails the claim, and the comment of \<open>body\<close> (``If an object is supplied,
  the body will be appended with the objects keys and values''), when the accumulated
  body is not an object: after \<open>body("raw")\<close> the call \<open>body({a: 1})\<close> assigns to a
  property of a string and throws a \<open>TypeError\<close>; nothing is merged.
\<close>

theorem body_object_onto_string:
  "isObject (Obj [(''a'', Num 1)])
   \<and> chained (chained (get example_socket (Str ''/items'')) (body (Str ''raw'')))
        (body (Obj [(''a'', Num 1)])) = Inl EngineTypeError"
  by (simp add: get_example_request chained_def body_def isObject_def forEach_def)

text \<open>
  Where the accumulated body is a mapping, \<open>body\<close> does what its comment says.
  \<open>isObject\<close> holds of the plain mappings. \<open>body(value)\<close> with a mapping (its keys
  distinct, none of them \<open>__proto__\<close>) leaves a mapping that has the entries of \<open>value\<close>
  and, for every other key, the entry it had: the later write wins. With any other value
  the body becomes that value. Hence after two values that are not mappings the body is
  the second one, and after two mappings on a body that is a mapping, a key of the first
  that is not a key of the second has the value the first gave it.
\<close>

lemma body_merges_or_replaces:
  "(isObject b = (\<exists>ps. b = Obj ps))
   \<and> (h_body h = Obj bs \<and> distinct (map fst ps) \<and> ''__proto__'' \<notin> fst ` set ps \<longrightarrow>
        (\<exists>bs'. body (Obj ps) h = (Normal, h\<lparr>h_body := Obj bs'\<rparr>)
           \<and> map_of bs' = map_of bs ++ map_of ps))
   \<and> (\<not> isObject b \<longrightarrow> body b h = (Normal, h\<lparr>h_body := b\<rparr>))
   \<and> (\<not> isObject b1 \<and> \<not> isObject b2 \<longrightarrow>
        chained (chained (Inr h) (body b1)) (body b2) = Inr (h\<lparr>h_body := b2\<rparr>))
   \<and> (h_body h = Obj bs
        \<and> distinct (map fst ps1) \<and> ''__proto__'' \<notin> fst ` set ps1
        \<and> distinct (map fst ps2) \<and> ''__proto__'' \<notin> fst ` set ps2 \<longrightarrow>
        (\<exists>bs2. chained (chained (Inr h) (body (Obj ps1))) (body (Obj ps2)) =
                 Inr (h\<lparr>h_body := Obj bs2\<rparr>)
           \<and> map_of bs2 = map_of bs ++ map_of ps1 ++ map_of ps2
           \<and> (\<forall>k v. map_of ps1 k = Some v \<and> k \<notin> fst ` set ps2 \<longrightarrow> map_of bs2 k = Some v)))"
proof -
  have obj: "isObject b = (\<exists>ps. b = Obj ps)"
    by (cases b) (simp_all add: isObject_def)
  have merge: "h_body h = Obj bs \<and> distinct (map fst ps) \<and> ''__proto__'' \<notin> fst ` set ps \<longrightarrow>
        (\<exists>bs'. body (Obj ps) h = (Normal, h\<lparr>h_body := Obj bs'\<rparr>)
           \<and> map_of bs' = map_of bs ++ map_of ps)"
    using body_merges [of h bs ps] by blast
  have replace: "\<not> isObject b \<longrightarrow> body b h = (Normal, h\<lparr>h_body := b\<rparr>)"
    by (simp add: body_replaces)
  have twice: "\<not> isObject b1 \<and> \<not> isObject b2 \<longrightarrow>
        chained (chained (Inr h) (body b1)) (body b2) = Inr (h\<lparr>h_body := b2\<rparr>)"
    by (simp add: body_replaces chained_def)
  have two: "\<exists>bs2. chained (chained (Inr h) (body (Obj ps1))) (body (Obj ps2)) =
                 Inr (h\<lparr>h_body := Obj bs2\<rparr>)
           \<and> map_of bs2 = map_of bs ++ map_of ps1 ++ map_of ps2
           \<and> (\<forall>k v. map_of ps1 k = Some v \<and> k \<notin> fst ` set ps2 \<longrightarrow> map_of bs2 k = Some v)"
    if a: "h_body h = Obj bs" and d1: "distinct (map fst ps1)" and p1: "''__proto__'' \<notin> fst ` set ps1"
      and d2: "distinct (map fst ps2)" and p2: "''__proto__'' \<notin> fst ` set ps2"
  proof -
    from body_merges [OF a d1 p1] obtain bs1 where
      r1: "body (Obj ps1) h = (Normal, h\<lparr>h_body := Obj bs1\<rparr>)"
      and m1: "map_of bs1 = map_of bs ++ map_of ps1"
      by blast
    have "h_body (h\<lparr>h_body := Obj bs1\<rparr>) = Obj bs1" by simp
    from body_merges [OF this d2 p2] obtain bs2 where
      r2: "body (Obj ps2) (h\<lparr>h_body := Obj bs1\<rparr>) = (Normal, h\<lparr>h_body := Obj bs2\<rparr>)"
      and m2: "map_of bs2 = map_of bs1 ++ map_of ps2"
      by auto
    have run: "chained (chained (Inr h) (body (Obj ps1))) (body (Obj ps2)) =
        Inr (h\<lparr>h_body := Obj bs2\<rparr>)"
      by (simp add: chained_def r1 r2)
    have maps: "map_of bs2 = map_of bs ++ map_of ps1 ++ map_of ps2"
      by (simp add: m1 m2)
    have kept: "map_of bs2 k = Some v" if "map_of ps1 k = Some v" and "k \<notin> fst ` set ps2" for k v
    proof -
      from that(2) have "map_of ps2 k = None"
        by (simp add: map_of_eq_None_iff)
      with that(1) show ?thesis
        by (simp add: maps map_add_def)
    qed
    from run maps kept show ?thesis by blast
  qed
  from obj merge replace twice two show ?thesis by blast
qed

lemma body_merges_or_replaces_example:
  "chained (chained (Inr example_request) (body (Obj [(''a'', Num 1), (''b'', Num 2)])))
        (body (Obj [(''b'', Num 3), (''c'', Num 4)])) =
     Inr (example_request\<lparr>h_body := Obj [(''a'', Num 1), (''b'', Num 3), (''c'', Num 4)]\<rparr>)
   \<and> chained (chained (Inr example_request) (body (Str ''first''))) (body (Arr [Num 2] [])) =
     Inr (example_request\<lparr>h_body := Arr [Num 2] []\<rparr>)"
proof -
  have ex: "h_body example_request = Obj []"
    by (simp add: example_request_def)
  have run: "chained (chained (Inr example_request) (body (Obj [(''a'', Num 1), (''b'', Num 2)])))
        (body (Obj [(''b'', Num 3), (''c'', Num 4)])) =
     Inr (example_request\<lparr>h_body := Obj [(''a'', Num 1), (''b'', Num 3), (''c'', Num 4)]\<rparr>)"
    by (simp add: chained_def body_def isObject_def forEach_def ex set_own_def array_index_def)
  show ?thesis
    using body_merges_or_replaces [where h = example_request and bs = "[]"
        and ?ps1.0 = "[(''a'', Num 1), (''b'', Num 2)]" and ?ps2.0 = "[(''b'', Num 3), (''c'', Num 4)]"
        and ?b1.0 = "Str ''first''" and ?b2.0 = "Arr [Num 2] []"]
    by (simp add: ex run isObject_def)
qed

text \<open>
  C10, as the claim states it, fails for the key \<open>__proto__\<close> on a primitive: the
  assignment reaches the inherited setter, which returns without effect, so after
  \<open>body(7)\<close> the call \<open>body(value)\<close> with a mapping whose only own key is \<open>__proto__\<close>
  returns normally. The body is still 7.
\<close>

theorem body_proto_onto_number:
  "isObject (Obj [(''__proto__'', Num 1)])
   \<and> chained (chained (Inr example_request) (body (Num 7))) (body (Obj [(''__proto__'', Num 1)])) =
     Inr (example_request\<lparr>h_body := Num 7\<rparr>)"
  by (simp add: chained_def body_def isObject_def forEach_def)

text \<open>
  C10, amended. \<open>body\<close> stores any value that is neither object nor array as it is (a
  string, a number, \<open>null\<close>). Once the body is such a value, \<open>body(value)\<close> with a mapping
  never starts from a fresh mapping and never changes the body: it assigns the keys in
  order to the stored value. On \<open>undefined\<close> and \<open>null\<close> the first assignment throws a
  \<open>TypeError\<close>, so the call throws unless the mapping has no key. On a boolean, a number
  or a string the assignment of the key \<open>__proto__\<close> does nothing and the assignment of
  any other key throws a \<open>TypeError\<close>, so the call throws unless the mapping has no key
  but \<open>__proto__\<close>. Hence storing such a value and then calling \<open>body\<close> with a mapping
  that has a key other than \<open>__proto__\<close> throws a \<open>TypeError\<close>.
\<close>

theorem body_object_after_primitive:
  "(\<not> is_object b0 \<longrightarrow> body b0 h = (Normal, h\<lparr>h_body := b0\<rparr>))
   \<and> (h_body h = Undefined \<or> h_body h = Null \<longrightarrow>
        body (Obj ps) h = (if ps = [] then (Normal, h) else (Throw EngineTypeError, h)))
   \<and> (\<not> is_object (h_body h) \<and> h_body h \<noteq> Undefined \<and> h_body h \<noteq> Null \<longrightarrow>
        body (Obj ps) h =
          (if list_all (\<lambda>p. fst p = ''__proto__'') ps then (Normal, h)
           else (Throw EngineTypeError, h)))
   \<and> (\<not> is_object (h_body h) \<longrightarrow> h_body (snd (body (Obj ps) h)) = h_body h)
   \<and> (\<not> is_object b0 \<and> \<not> list_all (\<lambda>p. fst p = ''__proto__'') ps \<longrightarrow>
        chained (chained (Inr h) (body b0)) (body (Obj ps)) = Inl EngineTypeError)
   \<and> \<not> is_object (Str s) \<and> \<not> is_object (Num n) \<and> \<not> is_object Null"
proof -
  have replace: "\<not> is_object b0 \<longrightarrow> body b0 h = (Normal, h\<lparr>h_body := b0\<rparr>)"
    by (cases b0) (simp_all add: body_def isObject_def is_object_def)
  have absent: "h_body h = Undefined \<or> h_body h = Null \<longrightarrow>
        body (Obj ps) h = (if ps = [] then (Normal, h) else (Throw EngineTypeError, h))"
    using body_on_nothing [of h ps] by blast
  have primitive: "\<not> is_object (h_body h) \<and> h_body h \<noteq> Undefined \<and> h_body h \<noteq> Null \<longrightarrow>
        body (Obj ps) h =
          (if list_all (\<lambda>p. fst p = ''__proto__'') ps then (Normal, h)
           else (Throw EngineTypeError, h))"
    using body_on_primitive [of h ps] by blast
  have unchanged: "\<not> is_object (h_body h) \<longrightarrow> h_body (snd (body (Obj ps) h)) = h_body h"
  proof (cases "h_body h = Undefined \<or> h_body h = Null")
    case True
    then show ?thesis by (simp add: body_on_nothing)
  next
    case False
    then show ?thesis by (simp add: body_on_primitive)
  qed
  have both: "\<not> is_object b0 \<and> \<not> list_all (\<lambda>p. fst p = ''__proto__'') ps \<longrightarrow>
        chained (chained (Inr h) (body b0)) (body (Obj ps)) = Inl EngineTypeError"
  proof
    assume a: "\<not> is_object b0 \<and> \<not> list_all (\<lambda>p. fst p = ''__proto__'') ps"
    then have ne: "ps \<noteq> []" by auto
    from a replace have first: "body b0 h = (Normal, h\<lparr>h_body := b0\<rparr>)" by blast
    have "body (Obj ps) (h\<lparr>h_body := b0\<rparr>) = (Throw EngineTypeError, h\<lparr>h_body := b0\<rparr>)"
    proof (cases "b0 = Undefined \<or> b0 = Null")
      case True
      then show ?thesis using ne by (simp add: body_on_nothing)
    next
      case False
      then show ?thesis using a by (simp add: body_on_primitive)
    qed
    with first show "chained (chained (Inr h) (body b0)) (body (Obj ps)) = Inl EngineTypeError"
      by (simp add: chained_def)
  qed
  have prims: "\<not> is_object (Str s)" "\<not> is_object (Num n)" "\<not> is_object Null"
    by (simp_all add: is_object_def)
  show ?thesis
    using replace absent primitive unchanged both prims
    apply -
    apply (intro conjI)
    apply assumption+
    done
qed

theorem body_object_after_primitive_witness:
  "chained (chained (Inr example_request) (body Null)) (body (Obj [(''k'', Str ''v'')])) =
     Inl EngineTypeError
   \<and> body (Obj [(''__proto__'', Num 1)]) (example_request\<lparr>h_body := Null\<rparr>) =
     (Throw EngineTypeError, example_request\<lparr>h_body := Null\<rparr>)
   \<and> body (Obj [(''__proto__'', Num 1), (''k'', Str ''v'')]) (example_request\<lparr>h_body := Num 7\<rparr>) =
     (Throw EngineTypeError, example_request\<lparr>h_body := Num 7\<rparr>)
   \<and> body (Obj [(''__proto__'', Num 1)]) (example_request\<lparr>h_body := Num 7\<rparr>) =
     (Normal, example_request\<lparr>h_body := Num 7\<rparr>)
   \<and> body (Obj []) (example_request\<lparr>h_body := Str ''text''\<rparr>) =
     (Normal, example_request\<lparr>h_body := Str ''text''\<rparr>)"
  using body_object_after_primitive [where ?b0.0 = Null and h = example_request
      and ps = "[(''k'', Str ''v'')]"]
    body_object_after_primitive [where h = "example_request\<lparr>h_body := Null\<rparr>"
      and ps = "[(''__proto__'', Num 1)]"]
    body_object_after_primitive [where h = "example_request\<lparr>h_body := Num 7\<rparr>"
      and ps = "[(''__proto__'', Num 1), (''k'', Str ''v'')]"]
    body_object_after_primitive [where h = "example_request\<lparr>h_body := Num 7\<rparr>"
      and ps = "[(''__proto__'', Num 1)]"]
    body_object_after_primitive [where h = "example_request\<lparr>h_body := Str ''text''\<rparr>"
      and ps = "[]"]
  by (simp add: is_object_def)

end
